theory Spec2Isabelle
  imports
    Complex_Main
    "HOL-Library.Product_Lexorder"
    "HOL-Library.List_Lexorder"
    "HOL-Library.Char_ord"
    "HOL-Library.Multiset"
    "HOL-Library.Log_Nat"
begin

section \<open>PumpAndDumpAlpha: the penny-stock universe filter and the pumped-stock ranking\<close>

text \<open>
  The development embeds the two callbacks of \<^verbatim>\<open>Algorithm.Python/Alphas/PumpAndDumpAlpha.py\<close>:
  \<^verbatim>\<open>PumpAndDumpAlphaModel.Update\<close> (the spec's \<open>rank\<close>) and
  \<^verbatim>\<open>PennyStockUniverseSelectionModel.SelectCoarse\<close> (the spec's \<open>select\<close>).

  Numbers: prices, volumes and returns are Python floats, that is IEEE doubles. A finite
  double is represented by its rational value, and every arithmetic operation of the source
  rounds its exact result to the nearest double (\<open>fl\<close> below), ties to the even mantissa, and
  overflows to an infinity. The inputs are finite; with them no operation of the source
  produces a NaN. Identifiers (\<^verbatim>\<open>Symbol\<close>) are any type with a total order.
\<close>

subsection \<open>Double precision\<close>

text \<open>The nearest integer, a tie going to the even one.\<close>

definition round_half_even :: "rat \<Rightarrow> int" where
  "round_half_even x =
     (let f = \<lfloor>x\<rfloor>; d = x - of_int f
      in if d < 1 / 2 then f
         else if 1 / 2 < d then f + 1
         else if even f then f else f + 1)"

text \<open>\<open>\<lfloor>log\<^sub>2 \<bar>x\<bar>\<rfloor>\<close> for \<open>x \<noteq> 0\<close>, from the length in bits of an integer.\<close>

definition ilog2 :: "rat \<Rightarrow> int" where
  "ilog2 x = (if 1 \<le> \<bar>x\<bar> then bitlen \<lfloor>\<bar>x\<bar>\<rfloor> - 1 else - bitlen (\<lceil>1 / \<bar>x\<bar>\<rceil> - 1))"

text \<open>
  The exponent of the last mantissa bit of the doubles around \<open>x\<close>: 53 bits of mantissa, and
  \<open>2 powi - 1074\<close> the spacing of the subnormal numbers.
\<close>

definition exponent :: "rat \<Rightarrow> int" where
  "exponent x = max (ilog2 x - 52) (- 1074)"

text \<open>Rounding to the nearest multiple of \<open>2 powi exponent x\<close>, ties to even.\<close>

definition nearest :: "rat \<Rightarrow> rat" where
  "nearest x =
     (if x = 0 then 0
      else of_int (round_half_even (x / 2 powi exponent x)) * 2 powi exponent x)"

text \<open>A double that is not a NaN. The two zeros compare equal and are one value here.\<close>

datatype double = NegInf | Finite rat | PosInf

fun position :: "double \<Rightarrow> int \<times> rat" where
  "position NegInf = (- 1, 0)"
| "position (Finite x) = (0, x)"
| "position PosInf = (1, 0)"

instantiation double :: linorder
begin

definition less_eq_double :: "double \<Rightarrow> double \<Rightarrow> bool" where
  "less_eq_double a b \<longleftrightarrow> position a \<le> position b"

definition less_double :: "double \<Rightarrow> double \<Rightarrow> bool" where
  "less_double a b \<longleftrightarrow> position a < position b"

instance
proof
  fix x y z :: double
  show "(x < y) = (x \<le> y \<and> \<not> y \<le> x)"
    by (auto simp: less_eq_double_def less_double_def)
  show "x \<le> x" by (simp add: less_eq_double_def)
  show "x \<le> y \<Longrightarrow> y \<le> z \<Longrightarrow> x \<le> z" by (auto simp: less_eq_double_def)
  show "x \<le> y \<Longrightarrow> y \<le> x \<Longrightarrow> x = y"
    by (cases x; cases y) (auto simp: less_eq_double_def)
  show "x \<le> y \<or> y \<le> x" by (auto simp: less_eq_double_def)
qed

end

text \<open>The first power of two beyond the doubles: a result of this size is an infinity.\<close>

definition huge :: rat where
  "huge = 2 ^ 1024"

text \<open>The double an exact result is rounded to.\<close>

definition fl :: "rat \<Rightarrow> double" where
  "fl x =
     (let y = nearest x
      in if huge \<le> y then PosInf else if y \<le> - huge then NegInf else Finite y)"

text \<open>\<^verbatim>\<open>x - y\<close> for a finite \<open>y\<close>, and \<^verbatim>\<open>-x\<close>.\<close>

fun float_sub :: "double \<Rightarrow> rat \<Rightarrow> double" where
  "float_sub (Finite x) y = fl (x - y)"
| "float_sub PosInf y = PosInf"
| "float_sub NegInf y = NegInf"

fun float_neg :: "double \<Rightarrow> double" where
  "float_neg (Finite x) = Finite (- x)"
| "float_neg PosInf = NegInf"
| "float_neg NegInf = PosInf"

subsection \<open>Python built-ins used by the source\<close>

datatype py_error = ZeroDivisionError

text \<open>
  \<^verbatim>\<open>a / b\<close> on finite floats: raises on a zero divisor, and otherwise gives the quotient
  rounded to a double.
\<close>

definition truediv :: "rat \<Rightarrow> rat \<Rightarrow> py_error + double" where
  "truediv a b = (if b = 0 then Inl ZeroDivisionError else Inr (fl (a / b)))"

text \<open>
  \<^verbatim>\<open>round(x, 6)\<close> on a float: the exact value of \<open>x\<close> is rounded to the nearest multiple of
  0.000001, a tie going to the even multiple, and the decimal is read back as a double; an
  infinity is returned as it is.
\<close>

fun round6 :: "double \<Rightarrow> double" where
  "round6 (Finite x) = fl (of_int (round_half_even (x * 1000000)) / 1000000)"
| "round6 PosInf = PosInf"
| "round6 NegInf = NegInf"

text \<open>
  \<^verbatim>\<open>d[k] = v\<close> on a dict, kept as the list of its items in insertion order: an existing key
  keeps its place and takes the new value, a new key goes to the end.
\<close>

fun setitem :: "('k \<times> 'v) list \<Rightarrow> 'k \<Rightarrow> 'v \<Rightarrow> ('k \<times> 'v) list" where
  "setitem [] k v = [(k, v)]"
| "setitem ((k', v') # d) k v =
     (if k' = k then (k', v) # d else (k', v') # setitem d k v)"

text \<open>\<^verbatim>\<open>dict(pairs)\<close>: the pairs are stored one after the other.\<close>

definition dict :: "('k \<times> 'v) list \<Rightarrow> ('k \<times> 'v) list" where
  "dict pairs = fold (\<lambda>kv d. setitem d (fst kv) (snd kv)) pairs []"

text \<open>
  \<^verbatim>\<open>sorted(xs, key=f, reverse=r)\<close>: a stable sort; with \<^verbatim>\<open>reverse=True\<close> the list is
  reversed, sorted and reversed again, so that elements with equal keys keep their input order.
\<close>

definition sorted_py :: "('a \<Rightarrow> 'b::linorder) \<Rightarrow> bool \<Rightarrow> 'a list \<Rightarrow> 'a list" where
  "sorted_py f reverse xs = (if reverse then rev (sort_key f (rev xs)) else sort_key f xs)"

text \<open>
  \<^verbatim>\<open>xs[0:n]\<close> and \<^verbatim>\<open>xs[:n]\<close> for an integer \<open>n\<close>: the first \<open>n\<close> elements, and for a negative
  \<open>n\<close> all but the last \<open>-n\<close>.
\<close>

definition slice_to :: "int \<Rightarrow> 'a list \<Rightarrow> 'a list" where
  "slice_to n xs = (if 0 \<le> n then take (nat n) xs else take (length xs - nat (- n)) xs)"

subsection \<open>Data of the host framework\<close>

type_synonym timespan = int

text \<open>
  Modelled from the spec: \<^verbatim>\<open>Resolution\<close>, \<^verbatim>\<open>Extensions.ToTimeSpan\<close> and \<^verbatim>\<open>Time.Multiply\<close> are host
  code that is not in the source file. The spec gives a resolution as
  "resolutionPeriod: duration (length of one period, e.g., one day)", with the default of one
  day, and "predictionInterval = resolutionPeriod * lookback". A resolution is therefore
  the length of its period, in seconds.
\<close>

datatype Resolution = Resolution timespan

definition Daily :: Resolution where
  "Daily = Resolution 86400"

fun ToTimeSpan :: "Resolution \<Rightarrow> timespan" where
  "ToTimeSpan (Resolution period) = period"

definition Multiply :: "timespan \<Rightarrow> int \<Rightarrow> timespan" where
  "Multiply interval multiplier = interval * multiplier"

text \<open>
  One entry of \<^verbatim>\<open>algorithm.ActiveSecurities.Values\<close>: the spec's PriceObservation, with finite
  prices.
\<close>

record 'sym security =
  Symbol :: 'sym
  HasData :: bool
  Open :: rat
  Close :: rat

datatype InsightDirection = Down | Flat | Up

text \<open>
  Modelled from the spec: \<^verbatim>\<open>Insight.Price\<close> is host code that is not in the source file. The
  spec's InsightRecord holds the identifier, the prediction interval, the direction, the
  magnitude and an optional confidence; the factory stores its arguments.
\<close>

record 'sym insight =
  InsightSymbol :: 'sym
  Period :: timespan
  Direction :: InsightDirection
  Magnitude :: double
  Confidence :: "double option"

definition Price_insight ::
  "'sym \<Rightarrow> timespan \<Rightarrow> InsightDirection \<Rightarrow> double \<Rightarrow> double option \<Rightarrow> 'sym insight" where
  "Price_insight symbol period direction magnitude confidence =
     \<lparr>InsightSymbol = symbol, Period = period, Direction = direction,
      Magnitude = magnitude, Confidence = confidence\<rparr>"

text \<open>
  One entry of \<^verbatim>\<open>coarse\<close>: the spec's SymbolRecord, with finite numbers. The universe filter
  only compares them, which is exact.
\<close>

record 'sym coarse_fundamental =
  CoarseSymbol :: 'sym
  HasFundamentalData :: bool
  Volume :: rat
  Price :: rat
  DollarVolume :: rat

subsection \<open>PumpAndDumpAlphaModel\<close>

record alpha_model =
  predictionInterval :: timespan
  numberOfStocks :: int

text \<open>The keyword arguments the constructor looks at; \<open>None\<close> is an absent keyword.\<close>

record kwargs =
  kw_lookback :: "int option"
  kw_resolution :: "Resolution option"
  kw_numberOfStocks :: "int option"

text \<open>
  \<^verbatim>\<open>__init__\<close>. The result is a sum so that a rejected configuration has a value; the
  source has no \<^verbatim>\<open>raise\<close>, and every branch returns an object.
\<close>

definition alpha_init :: "kwargs \<Rightarrow> py_error + alpha_model" where
  "alpha_init kw =
     (let lookback = (case kw_lookback kw of Some l \<Rightarrow> l | None \<Rightarrow> 1);
          resolution = (case kw_resolution kw of Some r \<Rightarrow> r | None \<Rightarrow> Daily)
      in Inr \<lparr>predictionInterval = Multiply (ToTimeSpan resolution) lookback,
              numberOfStocks = (case kw_numberOfStocks kw of Some n \<Rightarrow> n | None \<Rightarrow> 10)\<rparr>)"

text \<open>
  The first loop of \<^verbatim>\<open>Update\<close>: \<open>symbolsRet\<close> is threaded through the securities; an
  exception of the division ends the loop.
\<close>

fun collect_returns ::
  "('sym \<times> double) list \<Rightarrow> 'sym security list \<Rightarrow> py_error + ('sym \<times> double) list" where
  "collect_returns symbolsRet [] = Inr symbolsRet"
| "collect_returns symbolsRet (security # rest) =
     (if HasData security then
        (let open' = Open security in
         if open' \<noteq> 0 then
           (case truediv (Close security) open' of
              Inl e \<Rightarrow> Inl e
            | Inr q \<Rightarrow>
                collect_returns (setitem symbolsRet (Symbol security) (float_sub q 1)) rest)
         else collect_returns symbolsRet rest)
      else collect_returns symbolsRet rest)"

text \<open>The ranking: the items sorted by \<^verbatim>\<open>(-round(kv[1], 6), kv[0])\<close>, cut, and made a dict.\<close>

definition pumpedStocks ::
  "alpha_model \<Rightarrow> ('sym::linorder \<times> double) list \<Rightarrow> ('sym \<times> double) list" where
  "pumpedStocks self symbolsRet =
     dict (slice_to (numberOfStocks self)
             (sorted_py (\<lambda>kv. (float_neg (round6 (snd kv)), fst kv)) False symbolsRet))"

text \<open>
  \<^verbatim>\<open>Update(self, algorithm, data)\<close>, given the active securities. The object is passed through:
  the first component of the result is \<open>self\<close> after the call, the second the returned
  insights or the exception raised.
\<close>

definition Update ::
  "alpha_model \<Rightarrow> 'sym::linorder security list \<Rightarrow> alpha_model \<times> (py_error + 'sym insight list)" where
  "Update self ActiveSecurities =
     (case collect_returns [] ActiveSecurities of
        Inl e \<Rightarrow> (self, Inl e)
      | Inr symbolsRet \<Rightarrow>
          (self, Inr (map (\<lambda>(key, value).
                             Price_insight key (predictionInterval self) Down value None)
                          (pumpedStocks self symbolsRet))))"

subsection \<open>PennyStockUniverseSelectionModel\<close>

record 'sym universe_model =
  numberOfSymbolsCoarse :: int
  lastMonth :: int
  symbols :: "'sym list"

text \<open>\<^verbatim>\<open>__init__\<close>.\<close>

definition universe_init :: "'sym universe_model" where
  "universe_init = \<lparr>numberOfSymbolsCoarse = 500, lastMonth = - 1, symbols = []\<rparr>"

text \<open>The local \<open>filtered\<close> of \<^verbatim>\<open>SelectCoarse\<close>.\<close>

definition filtered :: "'sym coarse_fundamental list \<Rightarrow> 'sym coarse_fundamental list" where
  "filtered coarse =
     filter (\<lambda>x. HasFundamentalData x
                 \<and> (1000000 > Volume x \<and> Volume x > 10000)
                 \<and> (5 > Price x \<and> Price x > 0)) coarse"

text \<open>The local \<open>top\<close> of \<^verbatim>\<open>SelectCoarse\<close>.\<close>

definition top_stocks :: "'sym universe_model \<Rightarrow> 'sym coarse_fundamental list \<Rightarrow> 'sym coarse_fundamental list" where
  "top_stocks self coarse =
     slice_to (numberOfSymbolsCoarse self) (sorted_py DollarVolume True (filtered coarse))"

text \<open>
  \<^verbatim>\<open>SelectCoarse(self, algorithm, coarse)\<close>, given \<^verbatim>\<open>algorithm.Time.month\<close>: the object after
  the call and the returned list.
\<close>

definition SelectCoarse ::
  "'sym universe_model \<Rightarrow> int \<Rightarrow> 'sym coarse_fundamental list \<Rightarrow> 'sym universe_model \<times> 'sym list" where
  "SelectCoarse self month coarse =
     (if month = lastMonth self then (self, symbols self)
      else
        (let self1 = self\<lparr>lastMonth := month\<rparr>;
             self2 = self1\<lparr>symbols := map CoarseSymbol (top_stocks self1 coarse)\<rparr>
         in (self2, symbols self2)))"

text \<open>The object after a history of calls, each with its month and its candidates.\<close>

fun select_calls ::
  "'sym universe_model \<Rightarrow> (int \<times> 'sym coarse_fundamental list) list \<Rightarrow> 'sym universe_model" where
  "select_calls self [] = self"
| "select_calls self ((month, coarse) # calls) =
     select_calls (fst (SelectCoarse self month coarse)) calls"

subsection \<open>Notions of the specification\<close>

text \<open>
  The spec's words for the ranking: an observation is valid when it has data and a non-zero
  open; its intraday return is \<open>close / open - 1\<close>, the quotient and the difference each
  rounded to a double; the ranking key is the return rounded to six decimals, negated for the
  descending order, then the identifier.
\<close>

definition valid :: "'sym security \<Rightarrow> bool" where
  "valid s \<longleftrightarrow> HasData s \<and> Open s \<noteq> 0"

definition intradayReturn :: "'sym security \<Rightarrow> double" where
  "intradayReturn s = float_sub (fl (Close s / Open s)) 1"

definition rank_key :: "'sym security \<Rightarrow> double \<times> 'sym" where
  "rank_key s = (float_neg (round6 (intradayReturn s)), Symbol s)"

text \<open>
  Where an identifier occurs more than once, \<open>latest\<close> keeps its last observation only; a
  list with one observation per identifier is left as it is.
\<close>

fun latest :: "'sym security list \<Rightarrow> 'sym security list" where
  "latest [] = []"
| "latest (s # ss) = (if Symbol s \<in> Symbol ` set ss then latest ss else s # latest ss)"

definition ranked :: "'sym::linorder security list \<Rightarrow> 'sym security list" where
  "ranked obs = sort_key rank_key (latest (filter valid obs))"

text \<open>
  The order of the ranking in the spec's words: the larger rounded return first, and for equal
  rounded returns the smaller identifier first.
\<close>

definition outranks :: "'sym::linorder security \<Rightarrow> 'sym security \<Rightarrow> bool" where
  "outranks a b \<longleftrightarrow>
     round6 (intradayReturn b) < round6 (intradayReturn a)
     \<or> (round6 (intradayReturn a) = round6 (intradayReturn b) \<and> Symbol a < Symbol b)"

text \<open>The insight the spec has for a selected observation.\<close>

definition emitted :: "timespan \<Rightarrow> 'sym security \<Rightarrow> 'sym insight" where
  "emitted period s =
     \<lparr>InsightSymbol = Symbol s, Period = period, Direction = Down,
      Magnitude = intradayReturn s, Confidence = None\<rparr>"

text \<open>One assignment \<^verbatim>\<open>symbolsRet[security.Symbol] = security.Close / open - 1\<close>, and the item it stores.\<close>

definition store_return ::
  "'sym security \<Rightarrow> ('sym \<times> double) list \<Rightarrow> ('sym \<times> double) list" where
  "store_return s d = setitem d (Symbol s) (intradayReturn s)"

definition entry :: "'sym security \<Rightarrow> 'sym \<times> double" where
  "entry s = (Symbol s, intradayReturn s)"

text \<open>
  The quotient \<open>close / open - 1\<close> in exact arithmetic, for the comparison with what the source
  computes.
\<close>

definition exact_return :: "'sym security \<Rightarrow> rat" where
  "exact_return s = Close s / Open s - 1"

subsection \<open>Example inputs\<close>

definition stock :: "string \<Rightarrow> bool \<Rightarrow> rat \<Rightarrow> rat \<Rightarrow> string security" where
  "stock name has_data opn cls =
     \<lparr>Symbol = name, HasData = has_data, Open = opn, Close = cls\<rparr>"

definition candidate :: "string \<Rightarrow> bool \<Rightarrow> rat \<Rightarrow> rat \<Rightarrow> rat \<Rightarrow> string coarse_fundamental" where
  "candidate name fundamental volume price dollar_volume =
     \<lparr>CoarseSymbol = name, HasFundamentalData = fundamental, Volume = volume,
      Price = price, DollarVolume = dollar_volume\<rparr>"

definition down_insight :: "string \<Rightarrow> rat \<Rightarrow> string insight" where
  "down_insight name magnitude =
     \<lparr>InsightSymbol = name, Period = 86400, Direction = Down,
      Magnitude = Finite magnitude, Confidence = None\<rparr>"

definition model_with :: "int \<Rightarrow> alpha_model" where
  "model_with n = \<lparr>predictionInterval = 86400, numberOfStocks = n\<rparr>"

definition keyword_args :: "int \<Rightarrow> kwargs" where
  "keyword_args n = \<lparr>kw_lookback = None, kw_resolution = None, kw_numberOfStocks = Some n\<rparr>"

text \<open>
  Three observations with the returns -0.125, 0.0625 and 0.125. Here and below the prices are
  doubles, and with an open of 1 and these closes the division and the subtraction are exact.
\<close>

definition obs_ABC :: "string security list" where
  "obs_ABC = [stock ''C'' True 1 (7 / 8), stock ''B'' True 1 (17 / 16),
              stock ''A'' True 1 (9 / 8)]"

text \<open>
  Returns of \<open>1 / 2 ^ 20\<close>, \<open>1 / 2 ^ 19\<close>, \<open>3 / 2 ^ 22\<close> and 0.125: the first three are about
  0.00000095, 0.0000019 and 0.00000072, which round to 0.000001, 0.000002 and 0.000001.
\<close>

definition obs_rank :: "string security list" where
  "obs_rank = [stock ''B'' True 1 (1048577 / 1048576), stock ''Z'' True 1 (524289 / 524288),
               stock ''A'' True 1 (4194307 / 4194304), stock ''D'' True 1 (9 / 8)]"

text \<open>The doubles of 1.28, 1.43, 3.84 and 4.29.\<close>

definition obs_doubles :: "string security list" where
  "obs_doubles =
     [stock ''B'' True (1080863910568919 / 281474976710656)
                       (4830110600354857 / 1125899906842624),
      stock ''A'' True (5764607523034235 / 4503599627370496)
                       (6440147467139809 / 4503599627370496)]"

text \<open>The doubles of 1.28, 1.41, 3.84 and 4.23.\<close>

definition obs_hundredths :: "string security list" where
  "obs_hundredths =
     [stock ''A'' True (5764607523034235 / 4503599627370496)
                       (6350075474592399 / 4503599627370496),
      stock ''B'' True (1080863910568919 / 281474976710656)
                       (1190639151486075 / 281474976710656)]"

text \<open>An observation without data and one with a zero open, before a valid one.\<close>

definition obs_bad :: "string security list" where
  "obs_bad = [stock ''Z'' False 1 100, stock ''Y'' True 0 5, stock ''A'' True 1 (9 / 8)]"

text \<open>An identifier observed twice.\<close>

definition obs_twice :: "string security list" where
  "obs_twice = [stock ''A'' True 1 2, stock ''B'' True 1 (3 / 2), stock ''A'' True 1 (5 / 4)]"

text \<open>One candidate inside the thresholds, and one on each of them.\<close>

definition coarse_bounds :: "string coarse_fundamental list" where
  "coarse_bounds =
     [candidate ''VHI'' True 1000000 2 2000000, candidate ''VLO'' True 10000 2 20000,
      candidate ''PHI'' True 50000 5 250000, candidate ''PZERO'' True 50000 0 0,
      candidate ''NOFUND'' False 50000 2 100000, candidate ''GOOD'' True 50000 2 100000]"

text \<open>Three candidates inside the thresholds, two of them with the same dollar volume.\<close>

definition coarse_ties :: "string coarse_fundamental list" where
  "coarse_ties =
     [candidate ''P'' True 50000 2 100000, candidate ''Q'' True 60000 3 180000,
      candidate ''R'' True 25000 4 100000]"

text \<open>A candidate listed twice.\<close>

definition coarse_twice :: "string coarse_fundamental list" where
  "coarse_twice = [candidate ''A'' True 50000 2 100000, candidate ''A'' True 50000 2 100000]"

definition march :: "string universe_model" where
  "march = \<lparr>numberOfSymbolsCoarse = 500, lastMonth = 3, symbols = [''OLD'']\<rparr>"

section \<open>Facts about the built-ins and the loops\<close>

subsection \<open>Double precision\<close>

lemma huge_code [code]: "huge = 179769313486231590772930519078902473361797697894230657273430081157732675805500963132708477322407536021120113879871393357658789768814416622492847430639474124377767893424865485276302219601246094119453082952085005768838150682342462881473913110540827237163350510684586298239947245938479716304835356329624224137216"
  by (simp add: huge_def)

lemma round_half_even_near: "\<bar>x - of_int (round_half_even x)\<bar> \<le> 1 / 2"
proof -
  have "of_int \<lfloor>x\<rfloor> \<le> x" "x < of_int \<lfloor>x\<rfloor> + 1" by linarith+
  then show ?thesis
    by (auto simp: round_half_even_def Let_def)
qed

lemma round_half_even_tie:
  "\<bar>x - of_int (round_half_even x)\<bar> = 1 / 2 \<Longrightarrow> even (round_half_even x)"
proof -
  have "of_int \<lfloor>x\<rfloor> \<le> x" "x < of_int \<lfloor>x\<rfloor> + 1" by linarith+
  then show "\<bar>x - of_int (round_half_even x)\<bar> = 1 / 2 \<Longrightarrow> even (round_half_even x)"
    by (auto simp: round_half_even_def Let_def split: if_splits)
qed








lemma float_neg_less: "float_neg a < float_neg b \<longleftrightarrow> b < a"
  by (cases a; cases b) (simp_all add: less_double_def)

lemma float_neg_le: "float_neg a \<le> float_neg b \<longleftrightarrow> b \<le> a"
  by (cases a; cases b) (simp_all add: less_eq_double_def)

lemma round6_decimal:
  "\<exists>k. round6 (Finite x) = fl (of_int k / 1000000) \<and> \<bar>x * 1000000 - of_int k\<bar> \<le> 1 / 2
       \<and> (\<bar>x * 1000000 - of_int k\<bar> = 1 / 2 \<longrightarrow> even k)"
  using round_half_even_near [of "x * 1000000"] round_half_even_tie [of "x * 1000000"]
  by (intro exI [of _ "round_half_even (x * 1000000)"]) simp

subsection \<open>Dicts\<close>

lemma keys_setitem:
  "map fst (setitem d k v) = (if k \<in> fst ` set d then map fst d else map fst d @ [k])"
  by (induction d k v rule: setitem.induct) auto

lemma distinct_setitem: "distinct (map fst d) \<Longrightarrow> distinct (map fst (setitem d k v))"
  by (simp add: keys_setitem)

lemma map_of_setitem: "map_of (setitem d k v) = (map_of d)(k \<mapsto> v)"
  by (induction d k v rule: setitem.induct) (auto simp: fun_eq_iff)

lemma setitem_new: "k \<notin> fst ` set d \<Longrightarrow> setitem d k v = d @ [(k, v)]"
  by (induction d k v rule: setitem.induct) auto

lemma fold_setitem_distinct:
  "distinct (map fst (d @ pairs)) \<Longrightarrow>
   fold (\<lambda>kv d. setitem d (fst kv) (snd kv)) pairs d = d @ pairs"
proof (induction pairs arbitrary: d)
  case Nil
  then show ?case by simp
next
  case (Cons p pairs)
  from Cons.prems have new: "fst p \<notin> fst ` set d" by auto
  from Cons.prems have "distinct (map fst ((d @ [p]) @ pairs))" by auto
  then have "fold (\<lambda>kv d. setitem d (fst kv) (snd kv)) pairs (d @ [p]) = (d @ [p]) @ pairs"
    by (rule Cons.IH)
  with new show ?case by (simp add: setitem_new)
qed

lemma dict_distinct: "distinct (map fst pairs) \<Longrightarrow> dict pairs = pairs"
  using fold_setitem_distinct [of "[]" pairs] by (simp add: dict_def)

subsection \<open>Slices\<close>

lemma slice_to_nonneg: "0 \<le> n \<Longrightarrow> slice_to n xs = take (nat n) xs"
  by (simp add: slice_to_def)

lemma slice_to_map: "slice_to n (map f xs) = map f (slice_to n xs)"
  by (simp add: slice_to_def take_map)

lemma set_slice_to: "set (slice_to n xs) \<subseteq> set xs"
  by (auto simp: slice_to_def dest: in_set_takeD)

lemma distinct_slice_to: "distinct (map f xs) \<Longrightarrow> distinct (map f (slice_to n xs))"
  by (simp add: slice_to_def take_map [symmetric])

subsection \<open>Sorting\<close>

lemma insort_key_map: "insort_key f (g x) (map g xs) = map g (insort_key (\<lambda>a. f (g a)) x xs)"
  by (induction xs) auto

lemma sort_key_map: "sort_key f (map g xs) = map g (sort_key (\<lambda>a. f (g a)) xs)"
  by (induction xs) (auto simp: insort_key_map)

lemma filter_eq_distinct: "distinct xs \<Longrightarrow> x \<in> set xs \<Longrightarrow> filter (\<lambda>y. x = y) xs = [x]"
  by (induction xs) (auto simp: filter_empty_conv)

lemma sort_key_inj_unique:
  assumes inj: "inj_on f (set xs)" and dx: "distinct xs" and dy: "distinct ys"
    and eq: "set xs = set ys"
  shows "sort_key f xs = sort_key f ys"
proof (rule properties_for_sort_key)
  from dx dy eq show "mset (sort_key f ys) = mset xs"
    by (simp add: set_eq_iff_mset_eq_distinct)
next
  show "sorted (map f (sort_key f ys))" by (rule sorted_sort_key)
next
  fix k assume "k \<in> set (sort_key f ys)"
  then have k: "k \<in> set xs" using eq by simp
  have same: "\<And>zs. set zs = set xs \<Longrightarrow> filter (\<lambda>x. f k = f x) zs = filter (\<lambda>x. k = x) zs"
    using inj k by (intro filter_cong) (auto dest: inj_onD)
  have "filter (\<lambda>x. f k = f x) (sort_key f ys) = filter (\<lambda>x. k = x) (sort_key f ys)"
    using eq by (intro same) simp
  also have "\<dots> = [k]" using dy k eq by (intro filter_eq_distinct) simp_all
  also have "\<dots> = filter (\<lambda>x. k = x) xs" using dx k by (simp add: filter_eq_distinct)
  also have "\<dots> = filter (\<lambda>x. f k = f x) xs" by (rule same [symmetric]) simp
  finally show "filter (\<lambda>x. f k = f x) (sort_key f ys) = filter (\<lambda>x. f k = f x) xs" .
qed

subsection \<open>The first loop\<close>

lemma collect_returns_fold:
  "collect_returns d obs = Inr (fold store_return (filter valid obs) d)"
  by (induction d obs rule: collect_returns.induct)
     (simp_all add: valid_def truediv_def store_return_def intradayReturn_def)

lemma distinct_fold_store:
  "distinct (map fst d) \<Longrightarrow> distinct (map fst (fold store_return vs d))"
  by (induction vs arbitrary: d) (simp_all add: store_return_def distinct_setitem)

lemma Symbol_latest: "Symbol ` set (latest vs) = Symbol ` set vs"
  by (induction vs) auto

lemma set_latest: "set (latest vs) \<subseteq> set vs"
  by (induction vs) auto

lemma distinct_latest: "distinct (map Symbol (latest vs))"
proof (induction vs)
  case Nil
  show ?case by simp
next
  case (Cons s vs)
  have "Symbol s \<notin> Symbol ` set vs \<Longrightarrow> Symbol s \<notin> Symbol ` set (latest vs)"
    by (simp add: Symbol_latest)
  with Cons show ?case by simp
qed

lemma latest_distinct: "distinct (map Symbol vs) \<Longrightarrow> latest vs = vs"
  by (induction vs) auto

lemma map_of_fold_store:
  "map_of (fold store_return vs d) = map_of d ++ map_of (map entry (latest vs))"
proof (induction vs arbitrary: d)
  case Nil
  show ?case by simp
next
  case (Cons s vs)
  let ?M = "map_of (map entry (latest vs))"
  have dom: "dom ?M = Symbol ` set vs"
    by (simp add: dom_map_of_conv_image_fst image_image entry_def Symbol_latest)
  have "map_of (fold store_return (s # vs) d) = (map_of d)(Symbol s \<mapsto> intradayReturn s) ++ ?M"
    by (simp only: fold_simps Cons.IH store_return_def map_of_setitem)
  also have "\<dots> = map_of d ++ map_of (map entry (latest (s # vs)))"
  proof (cases "Symbol s \<in> Symbol ` set vs")
    case True
    then have "Symbol s \<in> dom ?M" by (simp add: dom)
    then have "(map_of d)(Symbol s \<mapsto> intradayReturn s) ++ ?M = map_of d ++ ?M"
      by (auto simp: fun_eq_iff map_add_def split: option.splits)
    with True show ?thesis by simp
  next
    case False
    then have "Symbol s \<notin> dom ?M" by (simp add: dom)
    then have "(map_of d)(Symbol s \<mapsto> intradayReturn s) ++ ?M
               = map_of d ++ ?M(Symbol s \<mapsto> intradayReturn s)"
      by (auto simp: fun_eq_iff map_add_def split: option.splits)
    with False show ?thesis by (simp add: entry_def)
  qed
  finally show ?case .
qed

lemma set_fold_store: "set (fold store_return vs []) = set (map entry (latest vs))"
proof -
  have d1: "distinct (map fst (fold store_return vs []))"
    by (rule distinct_fold_store) simp
  have d2: "distinct (map fst (map entry (latest vs)))"
    using distinct_latest [of vs] by (simp add: entry_def comp_def)
  have "map_of (fold store_return vs []) = map_of (map entry (latest vs))"
    by (simp add: map_of_fold_store)
  then show ?thesis
    using d1 d2 by (simp only: set_map_of_compr)
qed


subsection \<open>The ranking\<close>

lemma inj_on_key:
  assumes "distinct (map fst d)"
  shows "inj_on (\<lambda>kv. (float_neg (round6 (snd kv)), fst kv)) (set d)"
proof (rule inj_onI)
  fix a b assume a: "a \<in> set d" and b: "b \<in> set d"
    and eq: "(float_neg (round6 (snd a)), fst a) = (float_neg (round6 (snd b)), fst b)"
  from eq have k: "fst a = fst b" by simp
  from a have "(fst a, snd a) \<in> set d" by simp
  moreover from b have "(fst a, snd b) \<in> set d" by (simp add: k)
  ultimately have "snd a = snd b" using assms by (metis eq_key_imp_eq_value)
  with k show "a = b" by (simp add: prod_eq_iff)
qed

lemma distinct_ranked: "distinct (map Symbol (ranked obs))"
proof -
  have "mset (map Symbol (ranked obs)) = mset (map Symbol (latest (filter valid obs)))"
    by (simp add: ranked_def)
  then show ?thesis
    using distinct_latest [of "filter valid obs"] by (metis mset_eq_imp_distinct_iff)
qed

lemma sorted_items:
  "sort_key (\<lambda>kv. (float_neg (round6 (snd kv)), fst kv)) (fold store_return (filter valid obs) [])
   = map entry (ranked obs)"
proof -
  let ?vs = "filter valid obs"
  let ?D = "fold store_return ?vs []"
  let ?L = "map entry (latest ?vs)"
  let ?key = "\<lambda>kv :: 'a \<times> double. (float_neg (round6 (snd kv)), fst kv)"
  have dD: "distinct (map fst ?D)" by (rule distinct_fold_store) simp
  have dL: "distinct (map fst ?L)"
    using distinct_latest [of ?vs] by (simp add: entry_def comp_def)
  have "sort_key ?key ?D = sort_key ?key ?L"
    using inj_on_key [OF dD] distinct_map [THEN iffD1, OF dD, THEN conjunct1]
      distinct_map [THEN iffD1, OF dL, THEN conjunct1] set_fold_store [of ?vs]
    by (rule sort_key_inj_unique)
  also have "\<dots> = map entry (sort_key (\<lambda>s. ?key (entry s)) (latest ?vs))"
    by (rule sort_key_map)
  also have "(\<lambda>s :: 'a security. ?key (entry s)) = rank_key"
    by (simp add: fun_eq_iff entry_def rank_key_def)
  finally show ?thesis by (simp add: ranked_def)
qed

lemma pumpedStocks_ranked:
  "pumpedStocks self (fold store_return (filter valid obs) [])
   = map entry (slice_to (numberOfStocks self) (ranked obs))"
proof -
  have "distinct (map Symbol (slice_to (numberOfStocks self) (ranked obs)))"
    using distinct_ranked by (rule distinct_slice_to)
  then have "distinct (map fst (map entry (slice_to (numberOfStocks self) (ranked obs))))"
    by (simp add: entry_def comp_def)
  then have "dict (map entry (slice_to (numberOfStocks self) (ranked obs)))
             = map entry (slice_to (numberOfStocks self) (ranked obs))"
    by (rule dict_distinct)
  then show ?thesis
    by (simp add: pumpedStocks_def sorted_py_def sorted_items slice_to_map)
qed

lemma Update_ranked:
  "Update self obs =
     (self, Inr (map (emitted (predictionInterval self))
                     (slice_to (numberOfStocks self) (ranked obs))))"
  by (simp add: Update_def collect_returns_fold pumpedStocks_ranked
        entry_def emitted_def Price_insight_def comp_def)

lemma set_ranked: "set (ranked obs) \<subseteq> {s \<in> set obs. valid s}"
  using set_latest [of "filter valid obs"] by (auto simp: ranked_def)

lemma ranked_filter: "ranked (filter valid obs) = ranked obs"
  by (simp add: ranked_def)

lemma sorted_ranked: "sorted (map rank_key (ranked obs))"
  by (simp add: ranked_def)


lemma sorted_outranks:
  "sorted (map rank_key xs) \<Longrightarrow> distinct (map Symbol xs) \<Longrightarrow> sorted_wrt outranks xs"
proof (induction xs)
  case Nil
  show ?case by simp
next
  case (Cons x xs)
  have "outranks x y" if y: "y \<in> set xs" for y
  proof -
    from Cons.prems(1) y have "rank_key x \<le> rank_key y" by simp
    moreover from Cons.prems(2) y have "Symbol x \<noteq> Symbol y" by auto
    ultimately show ?thesis
      by (auto simp: rank_key_def outranks_def less_eq_prod_def float_neg_less float_neg_le)
  qed
  with Cons show ?case by simp
qed

lemma last_latest:
  "s \<in> set (latest vs) \<Longrightarrow>
   filter (\<lambda>x. Symbol x = Symbol s) vs \<noteq> [] \<and> last (filter (\<lambda>x. Symbol x = Symbol s) vs) = s"
proof (induction vs)
  case Nil
  then show ?case by simp
next
  case (Cons x xs)
  show ?case
  proof (cases "s \<in> set (latest xs)")
    case True
    with Cons.IH show ?thesis by simp
  next
    case False
    with Cons.prems have sx: "s = x" and new: "Symbol x \<notin> Symbol ` set xs"
      by (auto split: if_splits)
    from new have "filter (\<lambda>y. Symbol y = Symbol x) xs = []"
      unfolding filter_empty_conv by (metis imageI)
    with sx show ?thesis by simp
  qed
qed


subsection \<open>The universe filter\<close>

lemma mset_sorted_py: "mset (sorted_py f r xs) = mset xs"
  by (simp add: sorted_py_def)

lemma sorted_py_reverse_desc: "sorted_wrt (\<lambda>a b. f b \<le> f a) (sorted_py f True xs)"
proof -
  have "sorted (map f (sort_key f (rev xs)))" by (rule sorted_sort_key)
  then have "sorted_wrt (\<lambda>a b. f a \<le> f b) (sort_key f (rev xs))"
    by (simp add: sorted_map)
  then show ?thesis by (simp add: sorted_py_def sorted_wrt_rev)
qed

lemma sorted_py_reverse_stable:
  "filter (\<lambda>x. f x = v) (sorted_py f True xs) = filter (\<lambda>x. f x = v) xs"
proof -
  have "filter (\<lambda>x. f x = v) (sorted_py f True xs)
        = rev (filter (\<lambda>x. f x = v) (sort_key f (rev xs)))"
    by (simp add: sorted_py_def rev_filter)
  also have "\<dots> = rev (filter (\<lambda>x. f x = v) (rev xs))"
    by (simp only: sort_key_stable)
  also have "\<dots> = filter (\<lambda>x. f x = v) xs"
    by (simp add: rev_filter)
  finally show ?thesis .
qed

lemma SelectCoarse_cached:
  "month = lastMonth self \<Longrightarrow> SelectCoarse self month coarse = (self, symbols self)"
  by (simp add: SelectCoarse_def)

lemma SelectCoarse_refresh:
  "month \<noteq> lastMonth self \<Longrightarrow>
   SelectCoarse self month coarse =
     (self\<lparr>lastMonth := month,
           symbols := map CoarseSymbol
             (slice_to (numberOfSymbolsCoarse self) (sorted_py DollarVolume True (filtered coarse)))\<rparr>,
      map CoarseSymbol
        (slice_to (numberOfSymbolsCoarse self) (sorted_py DollarVolume True (filtered coarse))))"
  by (simp add: SelectCoarse_def top_stocks_def Let_def)

lemma SelectCoarse_result: "snd (SelectCoarse self month coarse) = symbols (fst (SelectCoarse self month coarse))"
  by (simp add: SelectCoarse_def Let_def)

lemma SelectCoarse_lastMonth: "lastMonth (fst (SelectCoarse self month coarse)) = month"
  by (simp add: SelectCoarse_def Let_def)

lemma SelectCoarse_cap:
  "numberOfSymbolsCoarse (fst (SelectCoarse self month coarse)) = numberOfSymbolsCoarse self"
  by (simp add: SelectCoarse_def Let_def)

lemma select_calls_cap:
  "numberOfSymbolsCoarse (select_calls self calls) = numberOfSymbolsCoarse self"
  by (induction self calls rule: select_calls.induct) (simp_all add: SelectCoarse_cap)

lemma cap_reachable: "numberOfSymbolsCoarse (select_calls universe_init calls) = 500"
  by (simp add: select_calls_cap universe_init_def)

text \<open>The stored symbols are always the head of the sorted filter of some candidates.\<close>

lemma SelectCoarse_origin:
  assumes "\<exists>c. symbols self = map CoarseSymbol
              (slice_to (numberOfSymbolsCoarse self) (sorted_py DollarVolume True (filtered c)))"
  shows "\<exists>c. (month \<noteq> lastMonth self \<longrightarrow> c = coarse)
           \<and> symbols (fst (SelectCoarse self month coarse)) = map CoarseSymbol
               (slice_to (numberOfSymbolsCoarse self) (sorted_py DollarVolume True (filtered c)))"
proof (cases "month = lastMonth self")
  case True
  with assms show ?thesis by (simp add: SelectCoarse_cached)
next
  case False
  then show ?thesis by (simp add: SelectCoarse_refresh)
qed

lemma select_calls_origin:
  assumes "\<exists>c. symbols self = map CoarseSymbol
              (slice_to (numberOfSymbolsCoarse self) (sorted_py DollarVolume True (filtered c)))"
  shows "\<exists>c. symbols (select_calls self calls) = map CoarseSymbol
              (slice_to (numberOfSymbolsCoarse self) (sorted_py DollarVolume True (filtered c)))"
  using assms
proof (induction self calls rule: select_calls.induct)
  case (1 self)
  then show ?case by simp
next
  case (2 self month coarse calls)
  from SelectCoarse_origin [OF "2.prems", of month coarse]
  have "\<exists>c. symbols (fst (SelectCoarse self month coarse)) = map CoarseSymbol
              (slice_to (numberOfSymbolsCoarse (fst (SelectCoarse self month coarse)))
                 (sorted_py DollarVolume True (filtered c)))"
    by (auto simp: SelectCoarse_cap)
  from "2.IH" [OF this] show ?case by (simp add: SelectCoarse_cap)
qed

lemma origin_reachable:
  "\<exists>c. symbols (select_calls universe_init calls) = map CoarseSymbol
          (take 500 (sorted_py DollarVolume True (filtered c)))"
proof -
  have "\<exists>c. symbols (universe_init :: 'a universe_model) = map CoarseSymbol
          (slice_to (numberOfSymbolsCoarse (universe_init :: 'a universe_model))
             (sorted_py DollarVolume True (filtered (c :: 'a coarse_fundamental list))))"
    by (rule exI [of _ "[]"]) (simp add: universe_init_def filtered_def sorted_py_def slice_to_def)
  from select_calls_origin [OF this, of calls] show ?thesis
    by (simp add: universe_init_def slice_to_def)
qed


lemma filtered_strict:
  "filtered coarse =
     filter (\<lambda>x. HasFundamentalData x \<and> 10000 < Volume x \<and> Volume x < 1000000
                 \<and> 0 < Price x \<and> Price x < 5) coarse"
  unfolding filtered_def by (rule filter_cong) auto

lemma length_slice_to: "0 \<le> n \<Longrightarrow> int (length (slice_to n xs)) \<le> n"
  by (simp add: slice_to_def)

lemma distinct_symbols_sorted:
  assumes "distinct (map CoarseSymbol coarse)"
  shows "distinct (map CoarseSymbol (take k (sorted_py DollarVolume True (filtered coarse))))"
proof -
  have "distinct (map CoarseSymbol (filtered coarse))"
    using assms by (simp add: filtered_def distinct_map_filter)
  moreover have "mset (map CoarseSymbol (sorted_py DollarVolume True (filtered coarse)))
                 = mset (map CoarseSymbol (filtered coarse))"
    by (simp add: mset_sorted_py)
  ultimately have "distinct (map CoarseSymbol (sorted_py DollarVolume True (filtered coarse)))"
    by (metis mset_eq_imp_distinct_iff)
  then show ?thesis by (simp add: take_map [symmetric])
qed

lemma SelectCoarse_distinct:
  assumes "numberOfSymbolsCoarse self = 500" and "distinct (symbols self)"
    and "length (symbols self) \<le> 500" and "distinct (map CoarseSymbol coarse)"
  shows "distinct (symbols (fst (SelectCoarse self month coarse)))
         \<and> length (symbols (fst (SelectCoarse self month coarse))) \<le> 500"
proof (cases "month = lastMonth self")
  case True
  with assms show ?thesis by (simp add: SelectCoarse_cached)
next
  case False
  with assms distinct_symbols_sorted [OF assms(4), of 500] show ?thesis
    by (simp add: SelectCoarse_refresh slice_to_def)
qed

lemma select_calls_distinct:
  assumes "numberOfSymbolsCoarse self = 500" and "distinct (symbols self)"
    and "length (symbols self) \<le> 500"
    and "\<forall>(month, coarse) \<in> set calls. distinct (map CoarseSymbol coarse)"
  shows "distinct (symbols (select_calls self calls))
         \<and> length (symbols (select_calls self calls)) \<le> 500"
  using assms
proof (induction self calls rule: select_calls.induct)
  case (1 self)
  then show ?case by simp
next
  case (2 self month coarse calls)
  from "2.prems" have c: "distinct (map CoarseSymbol coarse)" by simp
  from SelectCoarse_distinct [OF "2.prems"(1) "2.prems"(2) "2.prems"(3) c, of month]
  have "distinct (symbols (fst (SelectCoarse self month coarse)))"
    and "length (symbols (fst (SelectCoarse self month coarse))) \<le> 500" by simp_all
  moreover have "numberOfSymbolsCoarse (fst (SelectCoarse self month coarse)) = 500"
    using "2.prems"(1) by (simp add: SelectCoarse_cap)
  moreover from "2.prems"(4) have "\<forall>(month, coarse) \<in> set calls. distinct (map CoarseSymbol coarse)"
    by simp
  ultimately show ?case using "2.IH" by simp
qed

subsection \<open>The examples evaluated\<close>

text \<open>
  The keys of a list are computed once when the list is decorated with them, sorted and
  undecorated, which is the same list.
\<close>

lemma sort_key_decorate: "sort_key f xs = map snd (sort_key fst (map (\<lambda>x. (f x, x)) xs))"
  by (simp add: sort_key_map comp_def)

lemma ranked_decorate:
  "ranked obs = map snd (sort_key fst (map (\<lambda>s. (rank_key s, s)) (latest (filter valid obs))))"
  unfolding ranked_def by (rule sort_key_decorate)

lemma Symbol_stock: "Symbol (stock name has_data opn cls) = name"
  by (simp add: stock_def)

lemma returns_obs_ABC:
  "intradayReturn (stock ''A'' True 1 (9 / 8)) = Finite (1 / 8)
   \<and> intradayReturn (stock ''B'' True 1 (17 / 16)) = Finite (1 / 16)
   \<and> intradayReturn (stock ''C'' True 1 (7 / 8)) = Finite (- 1 / 8)"
  by code_simp

lemma ranked_obs_ABC:
  "ranked obs_ABC =
     [stock ''A'' True 1 (9 / 8), stock ''B'' True 1 (17 / 16), stock ''C'' True 1 (7 / 8)]"
  unfolding ranked_decorate by code_simp

lemma returns_obs_rank:
  "intradayReturn (stock ''B'' True 1 (1048577 / 1048576)) = Finite (1 / 1048576)
   \<and> intradayReturn (stock ''Z'' True 1 (524289 / 524288)) = Finite (1 / 524288)
   \<and> intradayReturn (stock ''A'' True 1 (4194307 / 4194304)) = Finite (3 / 4194304)
   \<and> intradayReturn (stock ''D'' True 1 (9 / 8)) = Finite (1 / 8)"
  by code_simp

lemma ranked_obs_rank:
  "ranked obs_rank =
     [stock ''D'' True 1 (9 / 8), stock ''Z'' True 1 (524289 / 524288),
      stock ''A'' True 1 (4194307 / 4194304), stock ''B'' True 1 (1048577 / 1048576)]"
  unfolding ranked_decorate by code_simp

lemma round6_obs_rank:
  "round6 (Finite (1 / 1048576)) = Finite (4722366482869645 / 4722366482869645213696)
   \<and> round6 (Finite (3 / 4194304)) = Finite (4722366482869645 / 4722366482869645213696)
   \<and> round6 (Finite (1 / 524288)) = Finite (4722366482869645 / 2361183241434822606848)
   \<and> round6 (Finite (1 / 8)) = Finite (1 / 8)"
  by code_simp

lemma returns_obs_doubles:
  "intradayReturn (stock ''A'' True (5764607523034235 / 4503599627370496)
                                   (6440147467139809 / 4503599627370496)) = Finite (15 / 128)
   \<and> intradayReturn (stock ''B'' True (1080863910568919 / 281474976710656)
                                     (4830110600354857 / 1125899906842624)) = Finite (15 / 128)"
  by code_simp

lemma ranked_obs_doubles:
  "ranked obs_doubles =
     [stock ''A'' True (5764607523034235 / 4503599627370496)
                       (6440147467139809 / 4503599627370496),
      stock ''B'' True (1080863910568919 / 281474976710656)
                       (4830110600354857 / 1125899906842624)]"
  unfolding ranked_decorate by code_simp

lemma exact_obs_doubles:
  "round_half_even (exact_return (stock ''A'' True (5764607523034235 / 4503599627370496)
                                     (6440147467139809 / 4503599627370496)) * 1000000) = 117187
   \<and> round_half_even (exact_return (stock ''B'' True (1080863910568919 / 281474976710656)
                                     (4830110600354857 / 1125899906842624)) * 1000000) = 117188"
  by code_simp

lemma returns_obs_hundredths:
  "intradayReturn (stock ''A'' True (5764607523034235 / 4503599627370496)
                                   (6350075474592399 / 4503599627370496)) = Finite (13 / 128)
   \<and> intradayReturn (stock ''B'' True (1080863910568919 / 281474976710656)
                                     (1190639151486075 / 281474976710656))
       = Finite (457396837154817 / 4503599627370496)"
  by code_simp

lemma ranked_obs_hundredths:
  "ranked obs_hundredths =
     [stock ''B'' True (1080863910568919 / 281474976710656)
                       (1190639151486075 / 281474976710656),
      stock ''A'' True (5764607523034235 / 4503599627370496)
                       (6350075474592399 / 4503599627370496)]"
  unfolding ranked_decorate by code_simp

lemma returns_obs_twice:
  "intradayReturn (stock ''A'' True 1 2) = Finite 1
   \<and> intradayReturn (stock ''B'' True 1 (3 / 2)) = Finite (1 / 2)
   \<and> intradayReturn (stock ''A'' True 1 (5 / 4)) = Finite (1 / 4)"
  by code_simp

lemma ranked_obs_twice:
  "ranked obs_twice = [stock ''B'' True 1 (3 / 2), stock ''A'' True 1 (5 / 4)]"
  unfolding ranked_decorate by code_simp

lemma ranked_obs_bad: "ranked obs_bad = [stock ''A'' True 1 (9 / 8)]"
  unfolding ranked_decorate by code_simp



section \<open>The claims\<close>

subsection \<open>The ranking model\<close>

text \<open>
  C1, as stated, fails in three ways. A model with \<open>numberOfStocks = -1\<close>, which the
  constructor accepts, returns two insights on three observations: the slice \<^verbatim>\<open>[0:-1]\<close> drops
  the last entry. Of three valid observations, two of them with the same identifier, only two
  are ranked. And the order is that of the returns as the source computes them, in double
  precision: for the doubles of 1.28 and 1.43, and of 3.84 and 4.29, both computed returns are
  0.1171875 and A is returned, while the exact quotients round to 0.117187 for A and 0.117188
  for B.
\<close>

theorem rank_orders_and_cuts_counterexample:
  "numberOfStocks (model_with (- 1)) = - 1
   \<and> snd (Update (model_with (- 1)) obs_ABC) =
       Inr [down_insight ''A'' (1 / 8), down_insight ''B'' (1 / 16)]
   \<and> filter (\<lambda>s. HasData s \<and> Open s \<noteq> 0) obs_twice = obs_twice
   \<and> snd (Update (model_with 10) obs_twice) =
       Inr [down_insight ''B'' (1 / 2), down_insight ''A'' (1 / 4)]
   \<and> round_half_even (exact_return (stock ''A'' True (5764607523034235 / 4503599627370496)
                                        (6440147467139809 / 4503599627370496)) * 1000000)
       < round_half_even (exact_return (stock ''B'' True (1080863910568919 / 281474976710656)
                                          (4830110600354857 / 1125899906842624)) * 1000000)
   \<and> snd (Update (model_with 1) obs_doubles) = Inr [down_insight ''A'' (15 / 128)]"
proof -
  have "snd (Update (model_with (- 1)) obs_ABC) =
       Inr [down_insight ''A'' (1 / 8), down_insight ''B'' (1 / 16)]"
    using returns_obs_ABC
    by (simp add: Update_ranked ranked_obs_ABC slice_to_def model_with_def emitted_def
          down_insight_def Symbol_stock)
  moreover have "filter (\<lambda>s. HasData s \<and> Open s \<noteq> 0) obs_twice = obs_twice"
    by (simp add: obs_twice_def stock_def)
  moreover have "snd (Update (model_with 10) obs_twice) =
       Inr [down_insight ''B'' (1 / 2), down_insight ''A'' (1 / 4)]"
    using returns_obs_twice
    by (simp add: Update_ranked ranked_obs_twice slice_to_def model_with_def emitted_def
          down_insight_def Symbol_stock)
  moreover have "snd (Update (model_with 1) obs_doubles) = Inr [down_insight ''A'' (15 / 128)]"
    using returns_obs_doubles
    by (simp add: Update_ranked ranked_obs_doubles slice_to_def model_with_def emitted_def
          down_insight_def Symbol_stock)
  ultimately show ?thesis
    using exact_obs_doubles by (simp add: model_with_def)
qed

text \<open>
  C1, amended. For a model with \<open>numberOfStocks \<ge> 0\<close> and every sequence of observations,
  \<open>Update\<close> returns the insights of exactly the first \<open>numberOfStocks\<close> entries of \<open>ranked obs\<close>
  (all of them when there are fewer). \<open>ranked obs\<close> rearranges the valid observations
  (\<open>HasData\<close> true and \<open>Open \<noteq> 0\<close>), an identifier that occurs more than once counting once,
  with its last valid observation, so that every entry precedes all entries it outranks: a
  larger rounded return first, and for equal rounded returns the smaller identifier first.
  With one observation per identifier these are all the valid observations. The return is
  \<open>close / open - 1\<close> as the source computes it, the quotient and then the difference rounded
  to a double; it is rounded to the nearest multiple of 0.000001, a tie going to the even one,
  which is read back as a double.
\<close>

theorem rank_orders_and_cuts:
  assumes "0 \<le> numberOfStocks self"
  shows "snd (Update self obs) =
           Inr (map (emitted (predictionInterval self))
                    (take (nat (numberOfStocks self)) (ranked obs)))
         \<and> mset (ranked obs) = mset (latest (filter (\<lambda>s. HasData s \<and> Open s \<noteq> 0) obs))
         \<and> sorted_wrt (\<lambda>a b. round6 (intradayReturn b) < round6 (intradayReturn a)
                             \<or> (round6 (intradayReturn a) = round6 (intradayReturn b)
                                 \<and> Symbol a < Symbol b)) (ranked obs)
         \<and> (distinct (map Symbol obs) \<longrightarrow>
               latest (filter (\<lambda>s. HasData s \<and> Open s \<noteq> 0) obs)
               = filter (\<lambda>s. HasData s \<and> Open s \<noteq> 0) obs)
         \<and> (\<forall>s \<in> set obs. intradayReturn s = float_sub (fl (Close s / Open s)) 1)
         \<and> (\<forall>x. \<exists>k. round6 (Finite x) = fl (of_int k / 1000000)
                    \<and> \<bar>x * 1000000 - of_int k\<bar> \<le> 1 / 2
                    \<and> (\<bar>x * 1000000 - of_int k\<bar> = 1 / 2 \<longrightarrow> even k))"
proof -
  have v: "filter (\<lambda>s. HasData s \<and> Open s \<noteq> 0) obs = filter valid obs"
    by (rule filter_cong) (simp_all add: valid_def)
  have "snd (Update self obs) =
          Inr (map (emitted (predictionInterval self))
                   (take (nat (numberOfStocks self)) (ranked obs)))"
    using assms by (simp add: Update_ranked slice_to_nonneg)
  moreover have "mset (ranked obs) = mset (latest (filter (\<lambda>s. HasData s \<and> Open s \<noteq> 0) obs))"
    by (simp add: ranked_def v)
  moreover have "sorted_wrt outranks (ranked obs)"
    using sorted_ranked distinct_ranked by (rule sorted_outranks)
  then have "sorted_wrt (\<lambda>a b. round6 (intradayReturn b) < round6 (intradayReturn a)
                             \<or> (round6 (intradayReturn a) = round6 (intradayReturn b)
                                 \<and> Symbol a < Symbol b)) (ranked obs)"
    by (simp add: outranks_def [abs_def])
  moreover have "distinct (map Symbol obs) \<longrightarrow>
               latest (filter (\<lambda>s. HasData s \<and> Open s \<noteq> 0) obs)
               = filter (\<lambda>s. HasData s \<and> Open s \<noteq> 0) obs"
    by (simp add: latest_distinct distinct_map_filter)
  moreover have "\<forall>s \<in> set obs. intradayReturn s = float_sub (fl (Close s / Open s)) 1"
    by (simp add: intradayReturn_def)
  moreover have "\<forall>x. \<exists>k. round6 (Finite x) = fl (of_int k / 1000000)
                    \<and> \<bar>x * 1000000 - of_int k\<bar> \<le> 1 / 2
                    \<and> (\<bar>x * 1000000 - of_int k\<bar> = 1 / 2 \<longrightarrow> even k)"
    using round6_decimal by blast
  ultimately show ?thesis by blast
qed

text \<open>
  Four observations, none in the place its identifier would give it. D has the largest
  return; the returns of A and B differ and both round to 0.000001, so A precedes B; the return
  of Z rounds to 0.000002, so Z precedes both. And for the doubles of 1.28 and 1.41, and of
  3.84 and 4.23, the computed returns are 0.1015625 and 0.10156250000000022, which round to
  0.101562 and 0.101563, so B is returned.
\<close>

theorem rank_orders_and_cuts_witness:
  "0 \<le> numberOfStocks (model_with 3) \<and> distinct (map Symbol obs_rank)
   \<and> snd (Update (model_with 3) obs_rank) =
       Inr [down_insight ''D'' (1 / 8), down_insight ''Z'' (1 / 524288),
            down_insight ''A'' (3 / 4194304)]
   \<and> ranked obs_rank =
       [stock ''D'' True 1 (9 / 8), stock ''Z'' True 1 (524289 / 524288),
        stock ''A'' True 1 (4194307 / 4194304), stock ''B'' True 1 (1048577 / 1048576)]
   \<and> round6 (Finite (3 / 4194304)) = round6 (Finite (1 / 1048576))
   \<and> round6 (Finite (1 / 1048576)) < round6 (Finite (1 / 524288))
   \<and> 0 \<le> numberOfStocks (model_with 1) \<and> distinct (map Symbol obs_hundredths)
   \<and> snd (Update (model_with 1) obs_hundredths) =
       Inr [down_insight ''B'' (457396837154817 / 4503599627370496)]"
proof -
  have n: "0 \<le> numberOfStocks (model_with 3)" by (simp add: model_with_def)
  have d: "distinct (map Symbol obs_rank)" by (simp add: obs_rank_def stock_def)
  have k: "round6 (Finite (3 / 4194304)) = round6 (Finite (1 / 1048576))
           \<and> round6 (Finite (1 / 1048576)) < round6 (Finite (1 / 524288))"
    using round6_obs_rank by (simp add: less_double_def)
  from rank_orders_and_cuts [OF n, of obs_rank, THEN conjunct1] returns_obs_rank
  have u: "snd (Update (model_with 3) obs_rank) =
       Inr [down_insight ''D'' (1 / 8), down_insight ''Z'' (1 / 524288),
            down_insight ''A'' (3 / 4194304)]"
    by (simp add: ranked_obs_rank model_with_def emitted_def down_insight_def Symbol_stock)
  have n': "0 \<le> numberOfStocks (model_with 1)" by (simp add: model_with_def)
  have d': "distinct (map Symbol obs_hundredths)" by (simp add: obs_hundredths_def stock_def)
  from rank_orders_and_cuts [OF n', of obs_hundredths, THEN conjunct1] returns_obs_hundredths
  have u': "snd (Update (model_with 1) obs_hundredths) =
       Inr [down_insight ''B'' (457396837154817 / 4503599627370496)]"
    by (simp add: ranked_obs_hundredths model_with_def emitted_def down_insight_def Symbol_stock)
  from n d u ranked_obs_rank k n' d' u' show ?thesis by simp
qed




text \<open>
  C6. Observations with \<open>HasData\<close> false or \<open>Open = 0\<close> do not contribute: \<open>Update\<close> gives the
  same result when they are removed from the input, and every insight carries the identifier of
  a valid observation. The loop that divides never raises: from every dict and on every
  input it ends with a dict, so the \<open>ZeroDivisionError\<close> branch of \<open>truediv\<close> is unreachable.
\<close>

theorem invalid_observations_ignored:
  "Update self obs = Update self (filter (\<lambda>s. HasData s \<and> Open s \<noteq> 0) obs)
   \<and> (\<exists>d'. collect_returns d obs = Inr d')
   \<and> (\<exists>r. snd (Update self obs) = Inr r
          \<and> (\<forall>i \<in> set r. \<exists>s \<in> set obs. HasData s \<and> Open s \<noteq> 0 \<and> Symbol s = InsightSymbol i))"
proof -
  have "filter (\<lambda>s. HasData s \<and> Open s \<noteq> 0) obs = filter valid obs"
    by (rule filter_cong) (simp_all add: valid_def)
  then have "Update self obs = Update self (filter (\<lambda>s. HasData s \<and> Open s \<noteq> 0) obs)"
    by (simp add: Update_ranked ranked_filter)
  moreover have "\<exists>d'. collect_returns d obs = Inr d'"
    by (simp add: collect_returns_fold)
  moreover have "\<forall>i \<in> set (map (emitted (predictionInterval self))
                     (slice_to (numberOfStocks self) (ranked obs))).
                   \<exists>s \<in> set obs. HasData s \<and> Open s \<noteq> 0 \<and> Symbol s = InsightSymbol i"
    using set_slice_to [of "numberOfStocks self" "ranked obs"] set_ranked [of obs]
    by (auto simp: valid_def emitted_def)
  ultimately show ?thesis by (simp add: Update_ranked)
qed

text \<open>
  An observation without data and one with a zero open leave no trace.
\<close>

theorem invalid_observations_ignored_witness:
  "Update (model_with 10) obs_bad = Update (model_with 10) [stock ''A'' True 1 (9 / 8)]
   \<and> collect_returns [] obs_bad = Inr [(''A'', Finite (1 / 8))]
   \<and> snd (Update (model_with 10) obs_bad) = Inr [down_insight ''A'' (1 / 8)]"
proof -
  have f: "filter (\<lambda>s. HasData s \<and> Open s \<noteq> 0) obs_bad = [stock ''A'' True 1 (9 / 8)]"
    by (simp add: obs_bad_def stock_def)
  have c: "collect_returns [] obs_bad = Inr [(''A'', Finite (1 / 8))]" by code_simp
  have u: "snd (Update (model_with 10) obs_bad) = Inr [down_insight ''A'' (1 / 8)]"
    using returns_obs_ABC
    by (simp add: Update_ranked ranked_obs_bad slice_to_def model_with_def emitted_def
          down_insight_def Symbol_stock)
  from invalid_observations_ignored [of "model_with 10" obs_bad "[]"] f c u
  show ?thesis by simp
qed

text \<open>
  C9. \<open>Update\<close> leaves the object as it was, so \<open>predictionInterval\<close> and \<open>numberOfStocks\<close> are
  unchanged by a call, and a second call on the same observations returns the same insights.
\<close>

theorem Update_frame:
  "fst (Update self obs) = self
   \<and> predictionInterval (fst (Update self obs)) = predictionInterval self
   \<and> numberOfStocks (fst (Update self obs)) = numberOfStocks self
   \<and> snd (Update (fst (Update self obs)) obs) = snd (Update self obs)"
  by (simp add: Update_def split: sum.splits)

text \<open>
  C10. The insights returned by \<open>Update\<close> have pairwise distinct identifiers, and the magnitude
  of each is the return of the last observation of its identifier that was given a return
  (the last valid one), as the source computes it: later assignments overwrite earlier ones.
\<close>

theorem one_insight_per_identifier:
  "\<exists>r. snd (Update self obs) = Inr r
     \<and> distinct (map InsightSymbol r)
     \<and> (\<forall>i \<in> set r.
           let ws = filter (\<lambda>s. (HasData s \<and> Open s \<noteq> 0) \<and> Symbol s = InsightSymbol i) obs
           in ws \<noteq> []
              \<and> Magnitude i = float_sub (fl (Close (last ws) / Open (last ws))) 1)"
proof -
  let ?sel = "slice_to (numberOfStocks self) (ranked obs)"
  let ?r = "map (emitted (predictionInterval self)) ?sel"
  have "distinct (map Symbol ?sel)"
    using distinct_ranked by (rule distinct_slice_to)
  then have d: "distinct (map InsightSymbol ?r)"
    by (simp add: emitted_def comp_def)
  have l: "filter (\<lambda>x. (HasData x \<and> Open x \<noteq> 0) \<and> Symbol x = Symbol s) obs \<noteq> []
        \<and> last (filter (\<lambda>x. (HasData x \<and> Open x \<noteq> 0) \<and> Symbol x = Symbol s) obs) = s"
    if "s \<in> set ?sel" for s
  proof -
    from that have "s \<in> set (latest (filter valid obs))"
      using set_slice_to [of "numberOfStocks self" "ranked obs"] by (auto simp: ranked_def)
    then show ?thesis
      using last_latest [of s "filter valid obs"] by (simp add: valid_def)
  qed
  have "\<forall>i \<in> set ?r.
           let ws = filter (\<lambda>s. (HasData s \<and> Open s \<noteq> 0) \<and> Symbol s = InsightSymbol i) obs
           in ws \<noteq> []
              \<and> Magnitude i = float_sub (fl (Close (last ws) / Open (last ws))) 1"
    using l by (auto simp: emitted_def intradayReturn_def Let_def)
  with d show ?thesis by (simp add: Update_ranked)
qed

text \<open>
  An identifier observed twice is emitted once, with the later return.
\<close>

theorem one_insight_per_identifier_witness:
  "snd (Update (model_with 10) obs_twice) =
     Inr [down_insight ''B'' (1 / 2), down_insight ''A'' (1 / 4)]
   \<and> last (filter (\<lambda>s. (HasData s \<and> Open s \<noteq> 0) \<and> Symbol s = ''A'') obs_twice)
       = stock ''A'' True 1 (5 / 4)
   \<and> (\<exists>r. snd (Update (model_with 10) obs_twice) = Inr r
         \<and> distinct (map InsightSymbol r)
         \<and> (\<forall>i \<in> set r.
               let ws = filter (\<lambda>s. (HasData s \<and> Open s \<noteq> 0) \<and> Symbol s = InsightSymbol i)
                          obs_twice
               in ws \<noteq> []
                  \<and> Magnitude i = float_sub (fl (Close (last ws) / Open (last ws))) 1))"
proof -
  have "snd (Update (model_with 10) obs_twice) =
     Inr [down_insight ''B'' (1 / 2), down_insight ''A'' (1 / 4)]"
    using returns_obs_twice
    by (simp add: Update_ranked ranked_obs_twice slice_to_def model_with_def emitted_def
          down_insight_def Symbol_stock)
  moreover have "last (filter (\<lambda>s. (HasData s \<and> Open s \<noteq> 0) \<and> Symbol s = ''A'') obs_twice)
       = stock ''A'' True 1 (5 / 4)"
    by (simp add: obs_twice_def stock_def)
  ultimately show ?thesis
    using one_insight_per_identifier [of "model_with 10" obs_twice] by simp
qed

text \<open>
  C7, as stated, fails: the constructor has no check, and a configuration with
  \<open>numberOfStocks = 0\<close> or \<open>numberOfStocks = -1\<close> yields a model, not an error.
\<close>

theorem alpha_init_rejects_counterexample:
  "alpha_init (keyword_args 0) = Inr (model_with 0) \<and> \<not> isl (alpha_init (keyword_args 0))
   \<and> alpha_init (keyword_args (- 1)) = Inr (model_with (- 1)) \<and> \<not> isl (alpha_init (keyword_args (- 1)))"
  by (simp add: alpha_init_def keyword_args_def model_with_def Daily_def Multiply_def)

text \<open>
  C7, amended. The constructor accepts every configuration: it returns a model that holds
  \<open>numberOfStocks\<close> as given (10 when absent) and the period of the resolution (one day when
  absent) times \<open>lookback\<close> (1 when absent). A model with \<open>numberOfStocks = 0\<close> returns no
  insight, and one with \<open>numberOfStocks < 0\<close> returns the insights of all ranked entries but the
  last \<open>- numberOfStocks\<close>.
\<close>

theorem alpha_init_accepts_every_configuration:
  "\<exists>m. alpha_init kw = Inr m
     \<and> numberOfStocks m = (case kw_numberOfStocks kw of Some n \<Rightarrow> n | None \<Rightarrow> 10)
     \<and> predictionInterval m =
         ToTimeSpan (case kw_resolution kw of Some r \<Rightarrow> r | None \<Rightarrow> Daily)
         * (case kw_lookback kw of Some l \<Rightarrow> l | None \<Rightarrow> 1)
     \<and> (numberOfStocks m = 0 \<longrightarrow> snd (Update m obs) = Inr [])
     \<and> (numberOfStocks m < 0 \<longrightarrow>
          snd (Update m obs) =
            Inr (map (emitted (predictionInterval m))
                     (take (length (ranked obs) - nat (- numberOfStocks m)) (ranked obs))))"
  by (simp add: alpha_init_def Multiply_def Update_ranked slice_to_def)

text \<open>
  Both cases on three observations.
\<close>

theorem alpha_init_accepts_every_configuration_witness:
  "alpha_init (keyword_args 0) = Inr (model_with 0)
   \<and> numberOfStocks (model_with 0) = 0
   \<and> snd (Update (model_with 0) obs_ABC) = Inr []
   \<and> alpha_init (keyword_args (- 1)) = Inr (model_with (- 1))
   \<and> numberOfStocks (model_with (- 1)) < 0
   \<and> snd (Update (model_with (- 1)) obs_ABC) =
       Inr [down_insight ''A'' (1 / 8), down_insight ''B'' (1 / 16)]"
proof -
  have a0: "alpha_init (keyword_args 0) = Inr (model_with 0)"
    by (simp add: alpha_init_def keyword_args_def model_with_def Daily_def Multiply_def)
  have a1: "alpha_init (keyword_args (- 1)) = Inr (model_with (- 1))"
    by (simp add: alpha_init_def keyword_args_def model_with_def Daily_def Multiply_def)
  from alpha_init_accepts_every_configuration [of "keyword_args 0" obs_ABC]
    alpha_init_accepts_every_configuration [of "keyword_args (- 1)" obs_ABC] a0 a1
    returns_obs_ABC
  show ?thesis
    by (simp add: ranked_obs_ABC model_with_def emitted_def down_insight_def Symbol_stock)
qed

subsection \<open>The universe filter\<close>

text \<open>
  C3. A call of \<open>SelectCoarse\<close> in the month of the last refresh returns the stored symbols and
  leaves the object as it was, whatever the candidates. So of two calls in the same month, the
  second returns what the first returned and changes nothing, whatever its candidates.
\<close>

theorem select_cached_in_same_month:
  "(month = lastMonth self \<longrightarrow> SelectCoarse self month coarse = (self, symbols self))
   \<and> snd (SelectCoarse (fst (SelectCoarse self month c1)) month c2)
       = snd (SelectCoarse self month c1)
   \<and> fst (SelectCoarse (fst (SelectCoarse self month c1)) month c2)
       = fst (SelectCoarse self month c1)"
  by (simp add: SelectCoarse_cached SelectCoarse_lastMonth SelectCoarse_result)

text \<open>
  In March the stored list is returned; in April the list is computed, and a second call in
  April with other candidates returns it again.
\<close>

theorem select_cached_in_same_month_witness:
  "3 = lastMonth march
   \<and> SelectCoarse march 3 coarse_ties = (march, [''OLD''])
   \<and> snd (SelectCoarse march 4 coarse_ties) = [''Q'', ''P'', ''R'']
   \<and> snd (SelectCoarse (fst (SelectCoarse march 4 coarse_ties)) 4 coarse_bounds)
       = [''Q'', ''P'', ''R'']"
proof -
  have m: "3 = lastMonth march" by (simp add: march_def)
  have s: "symbols march = [''OLD'']" by (simp add: march_def)
  have r: "snd (SelectCoarse march 4 coarse_ties) = [''Q'', ''P'', ''R'']" by code_simp
  from select_cached_in_same_month [of 3 march coarse_ties]
    select_cached_in_same_month [of 4 march _ coarse_ties coarse_bounds] m s r
  show ?thesis by simp
qed

text \<open>
  C4. On a month change, after any history of calls, the returned identifiers are those of
  candidates kept from \<open>filtered coarse\<close>, which holds exactly the candidates with fundamental
  data, \<open>10000 < Volume < 1000000\<close> and \<open>0 < Price < 5\<close>; all of them are kept when they are at
  most 500. A candidate with \<open>Volume = 1000000\<close>, \<open>Volume = 10000\<close>, \<open>Price = 5\<close> or
  \<open>Price = 0\<close> is not kept.
\<close>

theorem select_filter_strict:
  assumes "month \<noteq> lastMonth (select_calls universe_init calls)"
  shows "\<exists>kept. snd (SelectCoarse (select_calls universe_init calls) month coarse)
                 = map CoarseSymbol kept
           \<and> set kept \<subseteq> set (filtered coarse)
           \<and> (length (filtered coarse) \<le> 500 \<longrightarrow> mset kept = mset (filtered coarse))
           \<and> filtered coarse =
               filter (\<lambda>x. HasFundamentalData x \<and> 10000 < Volume x \<and> Volume x < 1000000
                           \<and> 0 < Price x \<and> Price x < 5) coarse
           \<and> (\<forall>x. Volume x = 1000000 \<or> Volume x = 10000 \<or> Price x = 5 \<or> Price x = 0
                   \<longrightarrow> x \<notin> set (filtered coarse) \<and> x \<notin> set kept)"
proof -
  let ?self = "select_calls universe_init calls :: 'a universe_model"
  let ?S = "sorted_py DollarVolume True (filtered coarse)"
  let ?kept = "take 500 ?S"
  have r: "snd (SelectCoarse ?self month coarse) = map CoarseSymbol ?kept"
    using assms by (simp add: SelectCoarse_refresh cap_reachable slice_to_def)
  have sub: "set ?kept \<subseteq> set (filtered coarse)"
    using set_take_subset [of 500 ?S] mset_eq_setD [OF mset_sorted_py [of DollarVolume True "filtered coarse"]]
    by simp
  have all: "length (filtered coarse) \<le> 500 \<longrightarrow> mset ?kept = mset (filtered coarse)"
  proof
    assume "length (filtered coarse) \<le> 500"
    then have "length ?S \<le> 500"
      using mset_eq_length [OF mset_sorted_py [of DollarVolume True "filtered coarse"]] by simp
    then show "mset ?kept = mset (filtered coarse)"
      by (simp add: mset_sorted_py)
  qed
  have out: "\<forall>x. Volume x = 1000000 \<or> Volume x = 10000 \<or> Price x = 5 \<or> Price x = 0
                 \<longrightarrow> x \<notin> set (filtered coarse)"
    by (auto simp: filtered_def)
  with sub have out': "\<forall>x. Volume x = 1000000 \<or> Volume x = 10000 \<or> Price x = 5 \<or> Price x = 0
                 \<longrightarrow> x \<notin> set (filtered coarse) \<and> x \<notin> set ?kept"
    by blast
  from r sub all filtered_strict [of coarse] out' show ?thesis by blast
qed

text \<open>
  Of one candidate on each threshold, one without fundamental data and one inside, the last
  alone is kept.
\<close>

theorem select_filter_strict_witness:
  "1 \<noteq> lastMonth (select_calls (universe_init :: string universe_model) [])
   \<and> snd (SelectCoarse (select_calls universe_init []) 1 coarse_bounds) = [''GOOD'']
   \<and> filtered coarse_bounds = [candidate ''GOOD'' True 50000 2 100000]
   \<and> (\<exists>kept. snd (SelectCoarse (select_calls universe_init []) 1 coarse_bounds)
                 = map CoarseSymbol kept
           \<and> set kept \<subseteq> set (filtered coarse_bounds)
           \<and> (length (filtered coarse_bounds) \<le> 500 \<longrightarrow> mset kept = mset (filtered coarse_bounds))
           \<and> filtered coarse_bounds =
               filter (\<lambda>x. HasFundamentalData x \<and> 10000 < Volume x \<and> Volume x < 1000000
                           \<and> 0 < Price x \<and> Price x < 5) coarse_bounds
           \<and> (\<forall>x. Volume x = 1000000 \<or> Volume x = 10000 \<or> Price x = 5 \<or> Price x = 0
                   \<longrightarrow> x \<notin> set (filtered coarse_bounds) \<and> x \<notin> set kept))"
proof -
  have m: "1 \<noteq> lastMonth (select_calls (universe_init :: string universe_model) [])"
    by (simp add: universe_init_def)
  have r: "snd (SelectCoarse (select_calls universe_init []) 1 coarse_bounds) = [''GOOD'']"
    by code_simp
  have f: "filtered coarse_bounds = [candidate ''GOOD'' True 50000 2 100000]"
    by code_simp
  show ?thesis
    by (intro conjI m r f select_filter_strict [OF m])
qed

text \<open>
  C5. After any history of calls, \<open>SelectCoarse\<close> returns at most 500 identifiers: those of the
  first 500 entries of a list \<open>S\<close> that rearranges the filtered candidates \<open>c\<close> by descending
  \<open>DollarVolume\<close>, candidates of equal \<open>DollarVolume\<close> staying in their input order. On a month
  change \<open>c\<close> is the input of the call; otherwise the stored list is returned, and \<open>c\<close> is the
  input it was computed from.
\<close>

theorem select_capped_and_sorted:
  "\<exists>c S. (month \<noteq> lastMonth (select_calls universe_init calls) \<longrightarrow> c = coarse)
     \<and> mset S = mset (filtered c)
     \<and> sorted_wrt (\<lambda>a b. DollarVolume b \<le> DollarVolume a) S
     \<and> (\<forall>v. filter (\<lambda>x. DollarVolume x = v) S = filter (\<lambda>x. DollarVolume x = v) (filtered c))
     \<and> snd (SelectCoarse (select_calls universe_init calls) month coarse)
         = map CoarseSymbol (take 500 S)
     \<and> length (snd (SelectCoarse (select_calls universe_init calls) month coarse)) \<le> 500"
proof -
  let ?self = "select_calls universe_init calls :: 'a universe_model"
  have "\<exists>c. symbols ?self = map CoarseSymbol
          (slice_to (numberOfSymbolsCoarse ?self) (sorted_py DollarVolume True (filtered c)))"
    using origin_reachable [of calls] by (simp add: cap_reachable slice_to_def)
  from SelectCoarse_origin [OF this, of month coarse]
  obtain c where c: "month \<noteq> lastMonth ?self \<longrightarrow> c = coarse"
    and r: "snd (SelectCoarse ?self month coarse)
            = map CoarseSymbol (take 500 (sorted_py DollarVolume True (filtered c)))"
    by (auto simp: SelectCoarse_result cap_reachable slice_to_def)
  let ?S = "sorted_py DollarVolume True (filtered c)"
  have "mset ?S = mset (filtered c)" by (rule mset_sorted_py)
  moreover have "sorted_wrt (\<lambda>a b. DollarVolume b \<le> DollarVolume a) ?S"
    by (rule sorted_py_reverse_desc)
  moreover have "\<forall>v. filter (\<lambda>x. DollarVolume x = v) ?S
                     = filter (\<lambda>x. DollarVolume x = v) (filtered c)"
    by (simp add: sorted_py_reverse_stable)
  moreover have "length (snd (SelectCoarse ?self month coarse)) \<le> 500"
    by (simp add: r)
  ultimately show ?thesis using c r by blast
qed

text \<open>
  Two candidates of equal dollar volume follow the larger one, in their input order.
\<close>

theorem select_capped_and_sorted_witness:
  "1 \<noteq> lastMonth (select_calls (universe_init :: string universe_model) [])
   \<and> snd (SelectCoarse (select_calls universe_init []) 1 coarse_ties) = [''Q'', ''P'', ''R'']
   \<and> (\<exists>c S. c = coarse_ties
         \<and> mset S = mset (filtered c)
         \<and> sorted_wrt (\<lambda>a b. DollarVolume b \<le> DollarVolume a) S
         \<and> (\<forall>v. filter (\<lambda>x. DollarVolume x = v) S = filter (\<lambda>x. DollarVolume x = v) (filtered c))
         \<and> snd (SelectCoarse (select_calls universe_init []) 1 coarse_ties)
             = map CoarseSymbol (take 500 S))"
proof -
  have m: "1 \<noteq> lastMonth (select_calls (universe_init :: string universe_model) [])"
    by (simp add: universe_init_def)
  have r: "snd (SelectCoarse (select_calls universe_init []) 1 coarse_ties) = [''Q'', ''P'', ''R'']"
    by code_simp
  from select_capped_and_sorted [of 1 "[]" coarse_ties] m r show ?thesis by auto
qed

text \<open>
  C8, as stated, fails. \<open>SelectCoarse\<close> does not remove repeated identifiers: a candidate listed
  twice is stored twice. And a model with \<open>numberOfStocks = -1\<close> returns two insights on three
  observations, which is more than \<open>numberOfStocks\<close>.
\<close>

theorem tracked_set_invariant_counterexample:
  "symbols (fst (SelectCoarse universe_init 1 coarse_twice)) = [''A'', ''A'']
   \<and> \<not> distinct (symbols (fst (SelectCoarse universe_init 1 coarse_twice)))
   \<and> snd (Update (model_with (- 1)) obs_ABC) =
       Inr [down_insight ''A'' (1 / 8), down_insight ''B'' (1 / 16)]
   \<and> \<not> int (length [down_insight ''A'' (1 / 8), down_insight ''B'' (1 / 16)])
         \<le> numberOfStocks (model_with (- 1))"
proof -
  have s: "symbols (fst (SelectCoarse universe_init 1 coarse_twice)) = [''A'', ''A'']"
    by code_simp
  have u: "snd (Update (model_with (- 1)) obs_ABC) =
       Inr [down_insight ''A'' (1 / 8), down_insight ''B'' (1 / 16)]"
    using returns_obs_ABC
    by (simp add: Update_ranked ranked_obs_ABC slice_to_def model_with_def emitted_def
          down_insight_def Symbol_stock)
  from s u show ?thesis by (simp add: model_with_def)
qed

text \<open>
  C8, amended. After every history of calls whose candidate sequences each have pairwise
  distinct identifiers, the stored symbols are at most 500 and pairwise distinct; and every
  call of \<open>Update\<close> on a model with \<open>numberOfStocks \<ge> 0\<close> returns at most \<open>numberOfStocks\<close>
  insights.
\<close>

theorem tracked_set_invariant:
  assumes "\<forall>(month, coarse) \<in> set calls. distinct (map CoarseSymbol coarse)"
  shows "length (symbols (select_calls universe_init calls)) \<le> 500
         \<and> distinct (symbols (select_calls universe_init calls))
         \<and> (0 \<le> numberOfStocks self \<longrightarrow>
              (\<exists>r. snd (Update self obs) = Inr r \<and> int (length r) \<le> numberOfStocks self))"
proof -
  have "distinct (symbols (select_calls universe_init calls))
        \<and> length (symbols (select_calls universe_init calls)) \<le> 500"
    using _ _ _ assms by (rule select_calls_distinct) (simp_all add: universe_init_def)
  moreover have "0 \<le> numberOfStocks self \<longrightarrow>
              (\<exists>r. snd (Update self obs) = Inr r \<and> int (length r) \<le> numberOfStocks self)"
    by (simp add: Update_ranked length_slice_to)
  ultimately show ?thesis by simp
qed

text \<open>
  A history of three calls, the second in the month of the first.
\<close>

theorem tracked_set_invariant_witness:
  "distinct (map CoarseSymbol coarse_ties) \<and> distinct (map CoarseSymbol coarse_bounds)
   \<and> symbols (select_calls universe_init [(1, coarse_ties), (1, coarse_bounds), (2, coarse_bounds)])
       = [''GOOD'']
   \<and> length (symbols (select_calls universe_init
                 [(1, coarse_ties), (1, coarse_bounds), (2, coarse_bounds)])) \<le> 500
   \<and> distinct (symbols (select_calls universe_init
                   [(1, coarse_ties), (1, coarse_bounds), (2, coarse_bounds)]))
   \<and> 0 \<le> numberOfStocks (model_with 2)
   \<and> (\<exists>r. snd (Update (model_with 2) obs_ABC) = Inr r
          \<and> int (length r) \<le> numberOfStocks (model_with 2))"
proof -
  have t: "distinct (map CoarseSymbol coarse_ties)"
    by (simp add: coarse_ties_def candidate_def)
  have b: "distinct (map CoarseSymbol coarse_bounds)"
    by (simp add: coarse_bounds_def candidate_def)
  from t b have d: "\<forall>(month, coarse) \<in> set [(1, coarse_ties), (1, coarse_bounds), (2, coarse_bounds)].
      distinct (map CoarseSymbol coarse)"
    by simp
  have s: "symbols (select_calls universe_init [(1, coarse_ties), (1, coarse_bounds), (2, coarse_bounds)])
       = [''GOOD'']" by code_simp
  have n: "0 \<le> numberOfStocks (model_with 2)" by (simp add: model_with_def)
  from tracked_set_invariant [OF d, of "model_with 2" obs_ABC] t b s n
  show ?thesis by simp
qed

end
